theory Spec2Isabelle
  imports Main "HOL-Library.Sublist"
begin

section \<open>Python values, exceptions and the result tuple\<close>

text \<open>
  The handlers of \<^verbatim>\<open>app.py\<close> are closures inside \<^verbatim>\<open>create_gradio_interface\<close>. They
  call an external \<^verbatim>\<open>HealthcareAIAssistant\<close> object (module \<^verbatim>\<open>main\<close>, not part of the
  source file), the file system, the clock and the temporary directory. The model takes all of
  these as parameters and records every assistant call in a trace, so that "stage X is not
  invoked" is a statement about the trace.

  Python strings are modelled as \<^typ>\<open>string\<close>. The only string operations the handlers
  use are truthiness (non-emptiness), concatenation and \<^verbatim>\<open>startswith("Error")\<close>.
\<close>

text \<open>The value of the language dropdown as the handler receives it. Only the distinction
  tuple / not a tuple and the first component of a tuple are inspected by the code.\<close>

datatype pyval = PyNone | PyStr string | PyTuple "pyval list" | PyList "pyval list"

text \<open>A raised object: its class, as far as \<^verbatim>\<open>except Exception\<close> distinguishes it, and
  \<^verbatim>\<open>str(e)\<close>. \<open>BaseException_only\<close> stands for the classes outside \<^verbatim>\<open>Exception\<close>
  (\<^verbatim>\<open>KeyboardInterrupt\<close>, \<^verbatim>\<open>SystemExit\<close>, \<^verbatim>\<open>GeneratorExit\<close>,
  \<^verbatim>\<open>asyncio.CancelledError\<close>).\<close>

datatype exn_class = Exception | BaseException_only

datatype exn = Exn exn_class string

fun exn_class_of :: "exn \<Rightarrow> exn_class" where
  "exn_class_of (Exn c m) = c"

fun str_exn :: "exn \<Rightarrow> string" where
  "str_exn (Exn c m) = m"

text \<open>The third field of every result. The code produces it in three ways: the literal
  \<^verbatim>\<open>"{}"\<close>, \<^verbatim>\<open>json.dumps({"error": msg})\<close>, and the assistant's \<^verbatim>\<open>emr_content\<close>
  handed on as it is. The rendering of \<^verbatim>\<open>json.dumps\<close> is library code; the model keeps the
  document that is serialised.\<close>

datatype 'emr emr_doc = EmptyDoc | ErrorDoc string | Content 'emr

text \<open>The six-field tuple every handler returns: transcript, medical notes, EMR document,
  prescription, explanation, audio path (\<^verbatim>\<open>None\<close> or a path).\<close>

type_synonym 'emr result = "string \<times> string \<times> 'emr emr_doc \<times> string \<times> string \<times> string option"

datatype 'a outcome = Returned 'a | Raised exn

section \<open>The external assistant and the environment\<close>

text \<open>The assistant's five operations with the argument and result shapes the call sites
  use. Each may raise. \<^verbatim>\<open>transcribe_audio\<close> may return \<^verbatim>\<open>None\<close>.\<close>

record 'emr assistant =
  transcribe_audio :: "string \<Rightarrow> pyval \<Rightarrow> exn + string option"
  analyze_text :: "string \<Rightarrow> pyval \<Rightarrow> exn + string"
  generate_emr_content :: "string \<Rightarrow> pyval \<Rightarrow> exn + 'emr"
  generate_prescription :: "string \<Rightarrow> pyval \<Rightarrow> exn + (string \<times> string)"
  text_to_speech_with_gtts :: "string \<Rightarrow> string \<Rightarrow> pyval \<Rightarrow> exn + unit"

text \<open>\<open>path_exists\<close> is \<^verbatim>\<open>os.path.exists\<close>, \<open>gettempdir\<close> is \<^verbatim>\<open>tempfile.gettempdir()\<close>,
  \<open>now\<close> is \<^verbatim>\<open>int(time.time())\<close> as read by the run.\<close>

record 'emr env =
  assistant :: "'emr assistant"
  path_exists :: "string \<Rightarrow> bool"
  gettempdir :: string
  now :: int

datatype call =
    Transcribe string pyval
  | Analyze string pyval
  | GenerateEmr string pyval
  | GeneratePrescription string pyval
  | Tts string string pyval

fun call_language :: "call \<Rightarrow> pyval" where
  "call_language (Transcribe p l) = l"
| "call_language (Analyze t l) = l"
| "call_language (GenerateEmr t l) = l"
| "call_language (GeneratePrescription n l) = l"
| "call_language (Tts t p l) = l"

fun is_transcribe :: "call \<Rightarrow> bool" where
  "is_transcribe (Transcribe p l) = True"
| "is_transcribe c = False"

section \<open>Sequencing calls that may raise\<close>

text \<open>A computation inside a \<^verbatim>\<open>try\<close> block yields an exception or a value, together with
  the assistant calls made so far.\<close>

type_synonym 'a traced = "(exn + 'a) \<times> call list"

definition ret :: "'a \<Rightarrow> 'a traced" where
  "ret x = (Inr x, [])"

definition lift :: "exn + 'a \<Rightarrow> 'a traced" where
  "lift r = (r, [])"

definition invoke :: "call \<Rightarrow> exn + 'a \<Rightarrow> 'a traced" where
  "invoke c r = (r, [c])"

definition bind :: "'a traced \<Rightarrow> ('a \<Rightarrow> 'b traced) \<Rightarrow> 'b traced" where
  "bind m f =
     (case m of
        (Inl e, tr) \<Rightarrow> (Inl e, tr)
      | (Inr x, tr) \<Rightarrow> (case f x of (r, tr') \<Rightarrow> (r, tr @ tr')))"

text \<open>\<^verbatim>\<open>try: body  except Exception as e: return h(e)\<close>. An object outside
  \<^verbatim>\<open>Exception\<close> is not caught and reaches the caller.\<close>

definition try_except :: "'a traced \<Rightarrow> (exn \<Rightarrow> 'a) \<Rightarrow> 'a outcome \<times> call list" where
  "try_except m h =
     (case m of
        (Inr r, tr) \<Rightarrow> (Returned r, tr)
      | (Inl e, tr) \<Rightarrow>
          (if exn_class_of e = Exception then (Returned (h e), tr) else (Raised e, tr)))"

section \<open>Helpers of the handlers\<close>

text \<open>\<^verbatim>\<open>language_tuple[0] if isinstance(language_tuple, tuple) else "en"\<close>; indexing the
  empty tuple raises \<^verbatim>\<open>IndexError\<close>.\<close>

fun language_of :: "pyval \<Rightarrow> exn + pyval" where
  "language_of (PyTuple []) = Inl (Exn Exception ''tuple index out of range'')"
| "language_of (PyTuple (x # xs)) = Inr x"
| "language_of v = Inr (PyStr ''en'')"

text \<open>\<^verbatim>\<open>transcription[:100]\<close> in the logging line: slicing \<^verbatim>\<open>None\<close> raises
  \<^verbatim>\<open>TypeError\<close>; the sliced text itself is only logged.\<close>

definition not_subscriptable :: string where
  "not_subscriptable = CHR 0x27 # ''NoneType'' @ CHR 0x27 # '' object is not subscriptable''"

fun log_transcription :: "string option \<Rightarrow> exn + string" where
  "log_transcription None = Inl (Exn Exception not_subscriptable)"
| "log_transcription (Some t) = Inr t"

text \<open>The separator \<^verbatim>\<open>"\n\n"\<close>.\<close>

definition separator :: string where
  "separator = [CHR 0x0A, CHR 0x0A]"

text \<open>\<^verbatim>\<open>str\<close> of an integer, as the f-string renders \<^verbatim>\<open>int(time.time())\<close>.\<close>

definition digit_char :: "nat \<Rightarrow> char" where
  "digit_char d = ''0123456789'' ! d"

function str_nat :: "nat \<Rightarrow> string" where
  "str_nat n = (if n < 10 then [digit_char n] else str_nat (n div 10) @ [digit_char (n mod 10)])"
  by pat_completeness auto
termination
  by (relation "measure (\<lambda>n. n)") auto

declare str_nat.simps [simp del]

definition str_int :: "int \<Rightarrow> string" where
  "str_int i = (if i < 0 then CHR ''-'' # str_nat (nat (- i)) else str_nat (nat i))"

text \<open>\<^verbatim>\<open>os.path.join(a, b)\<close> for two components, as \<^verbatim>\<open>posixpath\<close> defines it.\<close>

definition path_join :: "string \<Rightarrow> string \<Rightarrow> string" where
  "path_join a b =
     (if prefix ''/'' b then b
      else if a = [] \<or> last a = CHR ''/'' then a @ b
      else a @ ''/'' @ b)"

definition audio_tts_path :: "'emr env \<Rightarrow> string" where
  "audio_tts_path env =
     path_join (gettempdir env) (''medical_notes_audio_'' @ str_int (now env) @ ''.mp3'')"

definition text_tts_path :: "'emr env \<Rightarrow> string" where
  "text_tts_path env =
     path_join (gettempdir env) (''text_notes_audio_'' @ str_int (now env) @ ''.mp3'')"

section \<open>process_audio\<close>

text \<open>Steps 2 to 5 of the audio pipeline (lines 140 to 159), after a usable transcription.\<close>

definition audio_pipeline :: "'emr env \<Rightarrow> string \<Rightarrow> pyval \<Rightarrow> 'emr result traced" where
  "audio_pipeline env transcription language =
     bind (invoke (Analyze transcription language)
             (analyze_text (assistant env) transcription language))
       (\<lambda>medical_notes.
     bind (invoke (GenerateEmr transcription language)
             (generate_emr_content (assistant env) transcription language))
       (\<lambda>emr_content.
     bind (invoke (GeneratePrescription medical_notes language)
             (generate_prescription (assistant env) medical_notes language))
       (\<lambda>(prescription_text, prescription_explanation).
     let tts_output_path = audio_tts_path env;
         notes_and_explanation = medical_notes @ separator @ prescription_explanation
     in
     bind (invoke (Tts notes_and_explanation tts_output_path language)
             (text_to_speech_with_gtts (assistant env) notes_and_explanation
                tts_output_path language))
       (\<lambda>u.
     ret (transcription, medical_notes, Content emr_content, prescription_text,
          prescription_explanation, Some tts_output_path)))))"

text \<open>The body of the \<^verbatim>\<open>try\<close> block of \<^verbatim>\<open>process_audio\<close>.\<close>

definition process_audio_body ::
  "'emr env \<Rightarrow> string option \<Rightarrow> pyval \<Rightarrow> 'emr result traced" where
  "process_audio_body env audio_path language_tuple =
     (case audio_path of
        None \<Rightarrow> ret (''Please record or upload audio first.'', '''', EmptyDoc, '''', '''', None)
      | Some p \<Rightarrow>
          if p = [] then
            ret (''Please record or upload audio first.'', '''', EmptyDoc, '''', '''', None)
          else if \<not> path_exists env p then
            ret (''Audio file not found at '' @ p, '''', ErrorDoc ''File not found'',
                 '''', '''', None)
          else
            bind (lift (language_of language_tuple)) (\<lambda>language.
            bind (invoke (Transcribe p language)
                    (transcribe_audio (assistant env) p language)) (\<lambda>transcription.
            bind (lift (log_transcription transcription)) (\<lambda>t.
            if t \<noteq> [] \<and> \<not> prefix ''Error'' t then audio_pipeline env t language
            else ret (t, '''', ErrorDoc ''Transcription failed'', '''', '''', None)))))"

definition process_audio ::
  "'emr env \<Rightarrow> string option \<Rightarrow> pyval \<Rightarrow> 'emr result outcome \<times> call list" where
  "process_audio env audio_path language_tuple =
     try_except (process_audio_body env audio_path language_tuple)
       (\<lambda>e. (''Error processing audio: '' @ str_exn e, '''', ErrorDoc (str_exn e),
             '''', '''', None))"

section \<open>process_text\<close>

definition process_text_body :: "'emr env \<Rightarrow> string \<Rightarrow> pyval \<Rightarrow> 'emr result traced" where
  "process_text_body env text_input language_tuple =
     (if text_input = [] then ret ('''', '''', EmptyDoc, '''', '''', None)
      else
        bind (lift (language_of language_tuple)) (\<lambda>language.
        bind (invoke (Analyze text_input language)
                (analyze_text (assistant env) text_input language))
          (\<lambda>medical_notes.
        bind (invoke (GenerateEmr text_input language)
                (generate_emr_content (assistant env) text_input language))
          (\<lambda>emr_content.
        bind (invoke (GeneratePrescription medical_notes language)
                (generate_prescription (assistant env) medical_notes language))
          (\<lambda>(prescription_text, prescription_explanation).
        let tts_output_path = text_tts_path env;
            notes_and_explanation = medical_notes @ separator @ prescription_explanation
        in
        bind (invoke (Tts notes_and_explanation tts_output_path language)
                (text_to_speech_with_gtts (assistant env) notes_and_explanation
                   tts_output_path language))
          (\<lambda>u.
        ret (text_input, medical_notes, Content emr_content, prescription_text,
             prescription_explanation, Some tts_output_path)))))))"

definition process_text ::
  "'emr env \<Rightarrow> string \<Rightarrow> pyval \<Rightarrow> 'emr result outcome \<times> call list" where
  "process_text env text_input language_tuple =
     try_except (process_text_body env text_input language_tuple)
       (\<lambda>e. (text_input, ''Error processing text: '' @ str_exn e, ErrorDoc (str_exn e),
             '''', '''', None))"

section \<open>process_from_any_source\<close>

text \<open>Python truthiness of a path that is \<^verbatim>\<open>None\<close> or a string.\<close>

fun truthy :: "string option \<Rightarrow> bool" where
  "truthy None = False"
| "truthy (Some p) = (p \<noteq> [])"

definition process_from_any_source ::
  "'emr env \<Rightarrow> string option \<Rightarrow> string option \<Rightarrow> pyval \<Rightarrow> 'emr result outcome \<times> call list" where
  "process_from_any_source env recorded_path uploaded_path language_tuple =
     (let path_to_use = (if truthy uploaded_path then uploaded_path else recorded_path) in
      if \<not> truthy path_to_use then
        (Returned (''No audio available. Please record or upload first.'', '''',
                   ErrorDoc ''No audio available'', '''', '''', None), [])
      else process_audio env path_to_use language_tuple)"

section \<open>Recording\<close>

text \<open>The module-level dictionary \<^verbatim>\<open>recording_state\<close>. The thread handle is represented by
  what \<^verbatim>\<open>is_alive()\<close> answers. The two button labels carry an emoji in the source (a
  microphone before "Record", a stop sign before "Stop").\<close>

datatype button_label = Record_label | Stop_label

record recording_state =
  is_recording :: bool
  audio_path :: "string option"
  frames :: "string list"
  recording_thread :: "bool option"

definition initial_recording_state :: recording_state where
  "initial_recording_state =
     \<lparr>is_recording = False, audio_path = None, frames = [], recording_thread = None\<rparr>"

text \<open>\<^verbatim>\<open>os.path.exists\<close> and \<^verbatim>\<open>os.path.getsize\<close> (which raises \<^verbatim>\<open>OSError\<close> on a file
  that has gone) at the moment \<^verbatim>\<open>stop_recording\<close> looks, that is after the bounded
  \<^verbatim>\<open>join\<close>.\<close>

record filesystem =
  fs_exists :: "string \<Rightarrow> bool"
  fs_getsize :: "string \<Rightarrow> exn + nat"

type_synonym status = "button_label \<times> string \<times> string option"

text \<open>\<^verbatim>\<open>start_recording\<close>: \<open>named_temporary_file\<close> is what
  \<^verbatim>\<open>tempfile.NamedTemporaryFile(delete=False, suffix='.wav')\<close> yields (the name of the file it
  created, or an exception), \<open>thread_start\<close> what \<^verbatim>\<open>recording_thread.start()\<close> yields.\<close>

definition start_recording ::
  "exn + string \<Rightarrow> exn + unit \<Rightarrow> recording_state \<Rightarrow> status outcome \<times> recording_state" where
  "start_recording named_temporary_file thread_start st =
     (let handler = (\<lambda>e st'.
            if exn_class_of e = Exception
            then (Returned (Record_label, ''Error starting recording: '' @ str_exn e, None), st')
            else (Raised e, st'))
      in
      case named_temporary_file of
        Inl e \<Rightarrow> handler e st
      | Inr audio_filepath \<Rightarrow>
          (case thread_start of
             Inl e \<Rightarrow>
               handler e (st\<lparr>is_recording := True, audio_path := Some audio_filepath,
                              recording_thread := Some False\<rparr>)
           | Inr u \<Rightarrow>
               (Returned (Stop_label, ''Recording in progress...'', None),
                st\<lparr>is_recording := True, audio_path := Some audio_filepath,
                   recording_thread := Some True\<rparr>)))"

text \<open>The file check of \<^verbatim>\<open>stop_recording\<close> (lines 102 to 111). The \<^verbatim>\<open>join\<close> before
  it (lines 98, 99) waits at most three seconds and changes neither the dictionary nor the
  returned value.\<close>

definition stop_recording_check :: "filesystem \<Rightarrow> recording_state \<Rightarrow> exn + status" where
  "stop_recording_check fs st =
     (case audio_path st of
        None \<Rightarrow> Inr (Record_label, ''No recording was saved.'', None)
      | Some p \<Rightarrow>
          if p \<noteq> [] \<and> fs_exists fs p then
            (case fs_getsize fs p of
               Inl e \<Rightarrow> Inl e
             | Inr file_size \<Rightarrow>
                 if file_size > 0 then Inr (Record_label, ''Recording complete.'', Some p)
                 else Inr (Record_label,
                           ''Recording stopped but file is empty. Please try again.'', None))
          else Inr (Record_label, ''No recording was saved.'', None))"

definition stop_recording ::
  "filesystem \<Rightarrow> recording_state \<Rightarrow> status outcome \<times> recording_state" where
  "stop_recording fs st =
     (let st' = st\<lparr>is_recording := False\<rparr> in
      case stop_recording_check fs st' of
        Inr r \<Rightarrow> (Returned r, st')
      | Inl e \<Rightarrow>
          if exn_class_of e = Exception
          then (Returned (Record_label, ''Error stopping recording: '' @ str_exn e, None), st')
          else (Raised e, st'))"

text \<open>The file at the session's path is there: the condition of line 102.\<close>

definition saved_file_present :: "filesystem \<Rightarrow> recording_state \<Rightarrow> bool" where
  "saved_file_present fs st =
     (case audio_path st of None \<Rightarrow> False | Some p \<Rightarrow> p \<noteq> [] \<and> fs_exists fs p)"

section \<open>What a call may raise\<close>

text \<open>A call result raises, if at all, an instance of \<^verbatim>\<open>Exception\<close>; an assistant all of
  whose operations do so.\<close>

definition only_Exception :: "exn + 'a \<Rightarrow> bool" where
  "only_Exception r = (\<forall>e. r = Inl e \<longrightarrow> exn_class_of e = Exception)"

definition raises_only_Exception :: "'emr assistant \<Rightarrow> bool" where
  "raises_only_Exception a \<longleftrightarrow>
     (\<forall>p l. only_Exception (transcribe_audio a p l)) \<and>
     (\<forall>t l. only_Exception (analyze_text a t l)) \<and>
     (\<forall>t l. only_Exception (generate_emr_content a t l)) \<and>
     (\<forall>n l. only_Exception (generate_prescription a n l)) \<and>
     (\<forall>t p l. only_Exception (text_to_speech_with_gtts a t p l))"

text \<open>The sixth field of what a handler returned.\<close>

definition audio_of :: "'emr result outcome \<times> call list \<Rightarrow> string option" where
  "audio_of x =
     (case fst x of
        Returned (transcript, notes, emr, prescription, explanation, audio) \<Rightarrow> audio
      | Raised e \<Rightarrow> None)"

section \<open>Concrete inputs\<close>

text \<open>An assistant with fixed answers, whose transcription and analysis answers are
  parameters, and an environment around it with two audio files on disk.\<close>

definition example_assistant ::
  "exn + string option \<Rightarrow> exn + string \<Rightarrow> (string \<times> string) list assistant" where
  "example_assistant transcription notes =
     \<lparr>transcribe_audio = (\<lambda>p l. transcription),
      analyze_text = (\<lambda>t l. notes),
      generate_emr_content = (\<lambda>t l. Inr [(''complaint'', ''headache'')]),
      generate_prescription = (\<lambda>n l. Inr (''Paracetamol 500 mg'', ''One tablet after meals'')),
      text_to_speech_with_gtts = (\<lambda>t p l. Inr ())\<rparr>"

definition example_env ::
  "exn + string option \<Rightarrow> exn + string \<Rightarrow> (string \<times> string) list env" where
  "example_env transcription notes =
     \<lparr>assistant = example_assistant transcription notes,
      path_exists = (\<lambda>p. p = ''/tmp/visit.wav'' \<or> p = ''/tmp/upload.wav''),
      gettempdir = ''/tmp'',
      now = 1700000000\<rparr>"

definition english :: pyval where
  "english = PyTuple [PyStr ''en'', PyStr ''English'']"

definition hindi :: pyval where
  "hindi = PyTuple [PyStr ''hi'', PyStr ''Hindi'']"

text \<open>The same environment with a transcription "hello" and notes "notes", whose later
  stages (EMR, prescription, speech) answer as given.\<close>

definition example_env_with ::
  "exn + (string \<times> string) list \<Rightarrow> exn + string \<times> string \<Rightarrow> exn + unit \<Rightarrow>
   (string \<times> string) list env" where
  "example_env_with emr prescription speech =
     \<lparr>assistant =
        \<lparr>transcribe_audio = (\<lambda>p l. Inr (Some ''hello'')),
         analyze_text = (\<lambda>t l. Inr ''notes''),
         generate_emr_content = (\<lambda>t l. emr),
         generate_prescription = (\<lambda>n l. prescription),
         text_to_speech_with_gtts = (\<lambda>t p l. speech)\<rparr>,
      path_exists = (\<lambda>p. p = ''/tmp/visit.wav'' \<or> p = ''/tmp/upload.wav''),
      gettempdir = ''/tmp'',
      now = 1700000000\<rparr>"

text \<open>A file system holding one recorded file of 88244 bytes.\<close>

definition example_fs :: filesystem where
  "example_fs =
     \<lparr>fs_exists = (\<lambda>p. p = ''/tmp/tmpk3v9.wav''),
      fs_getsize = (\<lambda>p. if p = ''/tmp/tmpk3v9.wav'' then Inr 88244
                         else Inl (Exn Exception ''No such file or directory''))\<rparr>"

text \<open>The session after one recording was started and stopped: no recording is active.\<close>

definition state_after_recording :: recording_state where
  "state_after_recording =
     snd (stop_recording example_fs
            (snd (start_recording (Inr ''/tmp/tmpk3v9.wav'') (Inr ()) initial_recording_state)))"

section \<open>Short-circuits of the handlers\<close>

text \<open>
  Claim C2. For every non-empty audio path that does not exist on disk, \<open>process_audio\<close>
  returns the result whose first field is "Audio file not found at <path>", whose EMR field is
  the document \<^verbatim>\<open>{"error": "File not found"}\<close>, whose other fields are empty, and the
  trace of assistant calls is empty: neither transcription nor any later stage is invoked.
\<close>

theorem process_audio_file_not_found:
  assumes "p \<noteq> []" and "\<not> path_exists env p"
  shows "process_audio env (Some p) language_tuple =
           (Returned (''Audio file not found at '' @ p, '''', ErrorDoc ''File not found'',
                      '''', '''', None), [])"
  using assms by (simp add: process_audio_def process_audio_body_def try_except_def ret_def)

theorem process_audio_file_not_found_witness:
  "''/tmp/missing.wav'' \<noteq> [] \<and>
   \<not> path_exists (example_env (Inr (Some ''hello'')) (Inr ''notes'')) ''/tmp/missing.wav'' \<and>
   process_audio (example_env (Inr (Some ''hello'')) (Inr ''notes''))
       (Some ''/tmp/missing.wav'') english =
     (Returned (''Audio file not found at /tmp/missing.wav'', '''', ErrorDoc ''File not found'',
                '''', '''', None), [])"
  using process_audio_file_not_found
          [where p = "''/tmp/missing.wav''"
             and env = "example_env (Inr (Some ''hello'')) (Inr ''notes'')"
             and language_tuple = english]
  by (simp add: example_env_def)

text \<open>
  Claim C3. For the empty string as text input, \<open>process_text\<close> returns the all-empty
  result (empty transcript, notes, prescription and explanation, the empty document
  \<^verbatim>\<open>{}\<close> as EMR field, no audio path) and makes no assistant call.
\<close>

theorem process_text_empty_input:
  "process_text env [] language_tuple = (Returned ('''', '''', EmptyDoc, '''', '''', None), [])"
  by (simp add: process_text_def process_text_body_def try_except_def ret_def)

section \<open>Failed transcription\<close>

text \<open>
  Claim C1, as the code has it. For every non-empty audio path whose file exists, if the
  language is extracted and the transcription stage returns a string starting with "Error",
  \<open>process_audio\<close> returns that string as the transcript, the document
  \<^verbatim>\<open>{"error": "Transcription failed"}\<close> as EMR field, empty notes, prescription and
  explanation, no audio path, and the only assistant call is the transcription: analyze,
  generate-EMR, generate-prescription and synthesize-speech are not invoked.
\<close>

theorem process_audio_transcription_error:
  assumes "p \<noteq> []" and "path_exists env p"
    and "language_of language_tuple = Inr l"
    and "transcribe_audio (assistant env) p l = Inr (Some t)"
    and "prefix ''Error'' t"
  shows "process_audio env (Some p) language_tuple =
           (Returned (t, '''', ErrorDoc ''Transcription failed'', '''', '''', None),
            [Transcribe p l])"
  using assms
  by (simp add: process_audio_def process_audio_body_def try_except_def bind_def lift_def
        invoke_def ret_def)

theorem process_audio_transcription_error_witness:
  "''/tmp/visit.wav'' \<noteq> [] \<and>
   path_exists (example_env (Inr (Some ''Error: no speech detected'')) (Inr ''notes''))
     ''/tmp/visit.wav'' \<and>
   language_of english = Inr (PyStr ''en'') \<and>
   transcribe_audio (assistant (example_env (Inr (Some ''Error: no speech detected''))
       (Inr ''notes''))) ''/tmp/visit.wav'' (PyStr ''en'') =
     Inr (Some ''Error: no speech detected'') \<and>
   prefix ''Error'' ''Error: no speech detected'' \<and>
   process_audio (example_env (Inr (Some ''Error: no speech detected'')) (Inr ''notes''))
       (Some ''/tmp/visit.wav'') english =
     (Returned (''Error: no speech detected'', '''', ErrorDoc ''Transcription failed'',
                '''', '''', None),
      [Transcribe ''/tmp/visit.wav'' (PyStr ''en'')])"
  using process_audio_transcription_error
          [where p = "''/tmp/visit.wav''"
             and env = "example_env (Inr (Some ''Error: no speech detected'')) (Inr ''notes'')"
             and language_tuple = english and l = "PyStr ''en''"
             and t = "''Error: no speech detected''"]
  by (simp add: example_env_def example_assistant_def english_def)

text \<open>The claim as the spec words it asks for an empty EMR field. At a transcription
  answering "Error: no speech detected" the EMR field is the error document, not the empty
  one.\<close>

theorem process_audio_transcription_error_emr_not_empty:
  "process_audio (example_env (Inr (Some ''Error: no speech detected'')) (Inr ''notes''))
       (Some ''/tmp/visit.wav'') english =
     (Returned (''Error: no speech detected'', '''', ErrorDoc ''Transcription failed'',
                '''', '''', None),
      [Transcribe ''/tmp/visit.wav'' (PyStr ''en'')]) \<and>
   process_audio (example_env (Inr (Some ''Error: no speech detected'')) (Inr ''notes''))
       (Some ''/tmp/visit.wav'') english \<noteq>
     (Returned (''Error: no speech detected'', '''', EmptyDoc, '''', '''', None),
      [Transcribe ''/tmp/visit.wav'' (PyStr ''en'')])"
  by (simp add: process_audio_def process_audio_body_def try_except_def bind_def lift_def
        invoke_def ret_def example_env_def example_assistant_def english_def)

text \<open>
  Claim C10, as the code has it. For every non-empty audio path whose file exists, if the
  language is extracted and the transcription stage returns the empty string,
  \<open>process_audio\<close> returns the empty string as transcript, the document
  \<^verbatim>\<open>{"error": "Transcription failed"}\<close> as EMR field, empty values for the other
  fields, and invokes no stage after the transcription.
\<close>

theorem process_audio_empty_transcription:
  assumes "p \<noteq> []" and "path_exists env p"
    and "language_of language_tuple = Inr l"
    and "transcribe_audio (assistant env) p l = Inr (Some [])"
  shows "process_audio env (Some p) language_tuple =
           (Returned ('''', '''', ErrorDoc ''Transcription failed'', '''', '''', None),
            [Transcribe p l])"
  using assms
  by (simp add: process_audio_def process_audio_body_def try_except_def bind_def lift_def
        invoke_def ret_def)

theorem process_audio_empty_transcription_witness:
  "''/tmp/upload.wav'' \<noteq> [] \<and>
   path_exists (example_env (Inr (Some [])) (Inr ''notes'')) ''/tmp/upload.wav'' \<and>
   language_of hindi = Inr (PyStr ''hi'') \<and>
   transcribe_audio (assistant (example_env (Inr (Some [])) (Inr ''notes'')))
       ''/tmp/upload.wav'' (PyStr ''hi'') = Inr (Some []) \<and>
   process_audio (example_env (Inr (Some [])) (Inr ''notes'')) (Some ''/tmp/upload.wav'') hindi =
     (Returned ('''', '''', ErrorDoc ''Transcription failed'', '''', '''', None),
      [Transcribe ''/tmp/upload.wav'' (PyStr ''hi'')])"
  using process_audio_empty_transcription
          [where p = "''/tmp/upload.wav''"
             and env = "example_env (Inr (Some [])) (Inr ''notes'')"
             and language_tuple = hindi and l = "PyStr ''hi''"]
  by (simp add: example_env_def example_assistant_def hindi_def)

text \<open>When the transcription stage returns \<^verbatim>\<open>None\<close>, the logging line slices it, the
  \<^verbatim>\<open>TypeError\<close> is caught by the handler, and the result carries that error, not
  "Transcription failed".\<close>

theorem process_audio_none_transcription:
  "process_audio (example_env (Inr None) (Inr ''notes'')) (Some ''/tmp/visit.wav'') english =
     (Returned (''Error processing audio: '' @ not_subscriptable, '''',
                ErrorDoc not_subscriptable, '''', '''', None),
      [Transcribe ''/tmp/visit.wav'' (PyStr ''en'')]) \<and>
   not_subscriptable \<noteq> ''Transcription failed''"
  by (simp add: process_audio_def process_audio_body_def try_except_def bind_def lift_def
        invoke_def ret_def example_env_def example_assistant_def english_def
        not_subscriptable_def)

section \<open>Stopping when no recording is active\<close>

text \<open>
  Claim C5, as the code has it. For every session state in which no recording is active
  and no file is present at the session's path (the path is unset, as at process start, or
  empty, or names no existing file), \<open>stop_recording\<close> leaves the state as it is and
  returns the status "No recording was saved." and no file path.
\<close>

theorem stop_recording_idle_no_file:
  assumes "\<not> is_recording st" and "\<not> saved_file_present fs st"
  shows "stop_recording fs st =
           (Returned (Record_label, ''No recording was saved.'', None), st)"
proof -
  have idle: "st\<lparr>is_recording := False\<rparr> = st"
    using assms(1) by (cases st) simp
  have "stop_recording_check fs st = Inr (Record_label, ''No recording was saved.'', None)"
    using assms(2)
    by (auto simp: stop_recording_check_def saved_file_present_def split: option.splits)
  then show ?thesis
    by (simp add: stop_recording_def Let_def idle)
qed

theorem stop_recording_idle_no_file_witness:
  "\<not> is_recording initial_recording_state \<and>
   \<not> saved_file_present example_fs initial_recording_state \<and>
   stop_recording example_fs initial_recording_state =
     (Returned (Record_label, ''No recording was saved.'', None), initial_recording_state)"
  using stop_recording_idle_no_file [where st = initial_recording_state and fs = example_fs]
  by (simp add: initial_recording_state_def saved_file_present_def)

text \<open>After one recording was started and stopped no recording is active, yet a further
  stop answers "Recording complete." with the path of the earlier file.\<close>

theorem stop_recording_idle_after_recording:
  "\<not> is_recording state_after_recording \<and>
   stop_recording example_fs state_after_recording =
     (Returned (Record_label, ''Recording complete.'', Some ''/tmp/tmpk3v9.wav''),
      state_after_recording)"
  by (simp add: state_after_recording_def stop_recording_def start_recording_def
        stop_recording_check_def initial_recording_state_def example_fs_def Let_def)

section \<open>Choosing the audio source\<close>

text \<open>
  Claim C7. The processing action runs \<open>process_audio\<close> on the uploaded path when one is
  present, otherwise on the recorded path when that is present; when neither is present it
  returns the "No audio available" error result and makes no assistant call.
\<close>

theorem process_from_any_source_choice:
  "(truthy uploaded_path \<longrightarrow>
      process_from_any_source env recorded_path uploaded_path language_tuple =
        process_audio env uploaded_path language_tuple) \<and>
   (\<not> truthy uploaded_path \<and> truthy recorded_path \<longrightarrow>
      process_from_any_source env recorded_path uploaded_path language_tuple =
        process_audio env recorded_path language_tuple) \<and>
   (\<not> truthy uploaded_path \<and> \<not> truthy recorded_path \<longrightarrow>
      process_from_any_source env recorded_path uploaded_path language_tuple =
        (Returned (''No audio available. Please record or upload first.'', '''',
                   ErrorDoc ''No audio available'', '''', '''', None), []))"
  by (simp add: process_from_any_source_def Let_def)

theorem process_from_any_source_choice_witness:
  "truthy (Some ''/tmp/upload.wav'') \<and>
   process_from_any_source (example_env (Inr (Some ''hello'')) (Inr ''notes''))
       (Some ''/tmp/visit.wav'') (Some ''/tmp/upload.wav'') english =
     process_audio (example_env (Inr (Some ''hello'')) (Inr ''notes''))
       (Some ''/tmp/upload.wav'') english \<and>
   \<not> truthy None \<and> truthy (Some ''/tmp/visit.wav'') \<and>
   process_from_any_source (example_env (Inr (Some ''hello'')) (Inr ''notes''))
       (Some ''/tmp/visit.wav'') None english =
     process_audio (example_env (Inr (Some ''hello'')) (Inr ''notes''))
       (Some ''/tmp/visit.wav'') english \<and>
   \<not> truthy (Some '''') \<and>
   process_from_any_source (example_env (Inr (Some ''hello'')) (Inr ''notes''))
       (Some '''') None english =
     (Returned (''No audio available. Please record or upload first.'', '''',
                ErrorDoc ''No audio available'', '''', '''', None), [])"
  using process_from_any_source_choice
          [where uploaded_path = "Some ''/tmp/upload.wav''"
             and recorded_path = "Some ''/tmp/visit.wav''"
             and env = "example_env (Inr (Some ''hello'')) (Inr ''notes'')"
             and language_tuple = english]
        process_from_any_source_choice
          [where uploaded_path = None
             and recorded_path = "Some ''/tmp/visit.wav''"
             and env = "example_env (Inr (Some ''hello'')) (Inr ''notes'')"
             and language_tuple = english]
        process_from_any_source_choice
          [where uploaded_path = None
             and recorded_path = "Some ''''"
             and env = "example_env (Inr (Some ''hello'')) (Inr ''notes'')"
             and language_tuple = english]
  by simp

section \<open>Exceptions inside the handlers\<close>

lemma fst_bind: "fst (bind m f) = (case fst m of Inl e \<Rightarrow> Inl e | Inr x \<Rightarrow> fst (f x))"
  by (cases m) (simp add: bind_def split: sum.splits prod.splits)

lemma snd_bind:
  "snd (bind m f) = (case fst m of Inl e \<Rightarrow> snd m | Inr x \<Rightarrow> snd m @ snd (f x))"
  by (cases m) (simp add: bind_def split: sum.splits prod.splits)

lemma snd_try_except: "snd (try_except m h) = snd m"
  by (cases m) (simp add: try_except_def split: sum.splits)

lemma only_Exception_ret: "only_Exception (fst (ret x))"
  by (simp add: only_Exception_def ret_def)

lemma only_Exception_lift: "only_Exception r \<Longrightarrow> only_Exception (fst (lift r))"
  by (simp add: lift_def)

lemma only_Exception_invoke: "only_Exception r \<Longrightarrow> only_Exception (fst (invoke c r))"
  by (simp add: invoke_def)

lemma only_Exception_bind:
  assumes "only_Exception (fst m)" and "\<And>x. only_Exception (fst (f x))"
  shows "only_Exception (fst (bind m f))"
proof (cases "fst m")
  case (Inl e)
  then show ?thesis using assms(1) by (simp add: fst_bind only_Exception_def)
next
  case (Inr x)
  then show ?thesis using assms(2) [of x] by (simp add: fst_bind)
qed

lemma only_Exception_language_of: "only_Exception (language_of v)"
  by (cases v rule: language_of.cases) (simp_all add: only_Exception_def)

lemma only_Exception_log_transcription: "only_Exception (log_transcription t)"
  by (cases t) (simp_all add: only_Exception_def)

lemma try_except_Returned:
  assumes "only_Exception (fst m)"
  shows "\<exists>r tr. try_except m h = (Returned r, tr)"
proof (cases m)
  case (Pair a tr)
  show ?thesis
  proof (cases a)
    case (Inl e)
    then have "exn_class_of e = Exception"
      using assms Pair by (simp add: only_Exception_def)
    then show ?thesis using Pair Inl by (simp add: try_except_def)
  next
    case (Inr r)
    then show ?thesis using Pair by (simp add: try_except_def)
  qed
qed

lemma audio_pipeline_only_Exception:
  assumes "raises_only_Exception (assistant env)"
  shows "only_Exception (fst (audio_pipeline env t l))"
proof -
  have a: "only_Exception (analyze_text (assistant env) t' l')"
    and b: "only_Exception (generate_emr_content (assistant env) t' l')"
    and c: "only_Exception (generate_prescription (assistant env) t' l')"
    and d: "only_Exception (text_to_speech_with_gtts (assistant env) t' p' l')"
    for t' p' l'
    using assms by (simp_all add: raises_only_Exception_def)
  show ?thesis
    unfolding audio_pipeline_def Let_def split_def
    by (intro only_Exception_bind only_Exception_invoke only_Exception_ret a b c d)
qed

lemma process_audio_body_only_Exception:
  assumes "raises_only_Exception (assistant env)"
  shows "only_Exception (fst (process_audio_body env ap lt))"
proof -
  have tr: "only_Exception (transcribe_audio (assistant env) p' l')" for p' l'
    using assms by (simp add: raises_only_Exception_def)
  have tail: "only_Exception (fst (if c then audio_pipeline env t l
                 else ret (t, '''', ErrorDoc ''Transcription failed'', '''', '''', None)))"
    for c t l
    by (simp add: audio_pipeline_only_Exception [OF assms] only_Exception_ret)
  have main: "only_Exception (fst (
            bind (lift (language_of lt)) (\<lambda>language.
            bind (invoke (Transcribe p language)
                    (transcribe_audio (assistant env) p language)) (\<lambda>transcription.
            bind (lift (log_transcription transcription)) (\<lambda>t.
            if t \<noteq> [] \<and> \<not> prefix ''Error'' t then audio_pipeline env t language
            else ret (t, '''', ErrorDoc ''Transcription failed'', '''', '''', None))))))" for p
    by (intro only_Exception_bind only_Exception_invoke only_Exception_lift
          only_Exception_language_of only_Exception_log_transcription tr tail)
  show ?thesis
    by (cases ap) (simp_all add: process_audio_body_def only_Exception_ret main)
qed

lemma process_text_body_only_Exception:
  assumes "raises_only_Exception (assistant env)"
  shows "only_Exception (fst (process_text_body env ti lt))"
proof -
  have a: "only_Exception (analyze_text (assistant env) t' l')"
    and b: "only_Exception (generate_emr_content (assistant env) t' l')"
    and c: "only_Exception (generate_prescription (assistant env) t' l')"
    and d: "only_Exception (text_to_speech_with_gtts (assistant env) t' p' l')"
    for t' p' l'
    using assms by (simp_all add: raises_only_Exception_def)
  show ?thesis
  proof (cases "ti = []")
    case True
    then show ?thesis by (simp add: process_text_body_def only_Exception_ret)
  next
    case False
    then show ?thesis
      unfolding process_text_body_def Let_def split_def if_not_P [OF False]
      by (intro only_Exception_bind only_Exception_invoke only_Exception_ret
            only_Exception_lift only_Exception_language_of a b c d)
  qed
qed

text \<open>
  Claim C4, as the code has it. For every input and every behaviour of the assistant in
  which whatever a call raises is an instance of \<^verbatim>\<open>Exception\<close>, \<open>process_audio\<close> and
  \<open>process_text\<close> do not raise to their caller: each returns a six-field result tuple.
\<close>

theorem handlers_return_on_Exception:
  assumes "raises_only_Exception (assistant env)"
  shows "(\<exists>r tr. process_audio env ap language_tuple = (Returned r, tr)) \<and>
         (\<exists>r tr. process_text env text_input language_tuple = (Returned r, tr))"
proof
  show "\<exists>r tr. process_audio env ap language_tuple = (Returned r, tr)"
    unfolding process_audio_def
    by (rule try_except_Returned) (rule process_audio_body_only_Exception [OF assms])
  show "\<exists>r tr. process_text env text_input language_tuple = (Returned r, tr)"
    unfolding process_text_def
    by (rule try_except_Returned) (rule process_text_body_only_Exception [OF assms])
qed

theorem handlers_return_on_Exception_witness:
  "raises_only_Exception
     (assistant (example_env (Inl (Exn Exception ''timeout''))
        (Inl (Exn Exception ''quota exceeded'')))) \<and>
   (\<exists>r tr. process_audio (example_env (Inl (Exn Exception ''timeout''))
        (Inl (Exn Exception ''quota exceeded''))) (Some ''/tmp/visit.wav'') english =
      (Returned r, tr)) \<and>
   (\<exists>r tr. process_text (example_env (Inl (Exn Exception ''timeout''))
        (Inl (Exn Exception ''quota exceeded''))) ''Patient reports headache for 2 days''
        english = (Returned r, tr))"
proof -
  have h: "raises_only_Exception
     (assistant (example_env (Inl (Exn Exception ''timeout''))
        (Inl (Exn Exception ''quota exceeded''))))"
    by (simp add: raises_only_Exception_def only_Exception_def example_env_def
          example_assistant_def)
  show ?thesis
    using h handlers_return_on_Exception [OF h] by blast
qed

text \<open>\<^verbatim>\<open>except Exception\<close> does not catch what lies outside \<^verbatim>\<open>Exception\<close>: when the
  analysis call raises such an object (a \<^verbatim>\<open>KeyboardInterrupt\<close>, say), \<open>process_text\<close>
  raises it to its caller.\<close>

theorem process_text_raises_outside_Exception:
  "process_text (example_env (Inr (Some ''hello'')) (Inl (Exn BaseException_only '''')))
       ''Patient reports headache for 2 days'' english =
     (Raised (Exn BaseException_only ''''),
      [Analyze ''Patient reports headache for 2 days'' (PyStr ''en'')])"
  by (simp add: process_text_def process_text_body_def try_except_def bind_def lift_def
        invoke_def ret_def example_env_def example_assistant_def english_def)

section \<open>The calls a handler makes\<close>

lemma list_all_bind:
  assumes "list_all P (snd m)" and "\<And>x. list_all P (snd (f x))"
  shows "list_all P (snd (bind m f))"
proof (cases "fst m")
  case (Inl e)
  then show ?thesis using assms(1) by (simp add: snd_bind)
next
  case (Inr x)
  then show ?thesis using assms(1) assms(2) [of x] by (simp add: snd_bind)
qed

lemma list_all_ret: "list_all P (snd (ret x))"
  by (simp add: ret_def)

lemma list_all_lift: "list_all P (snd (lift r))"
  by (simp add: lift_def)

lemma list_all_invoke: "P c \<Longrightarrow> list_all P (snd (invoke c r))"
  by (simp add: invoke_def)

lemma audio_pipeline_language:
  "list_all (\<lambda>c. call_language c = l) (snd (audio_pipeline env t l))"
  unfolding audio_pipeline_def Let_def split_def
  by (intro list_all_bind list_all_invoke list_all_ret) simp_all

lemma bind_lift_Inr: "bind (lift (Inr x)) f = f x"
  by (cases "f x") (simp add: bind_def lift_def)

lemma process_audio_body_language:
  assumes "language_of lt = Inr l"
  shows "list_all (\<lambda>c. call_language c = l) (snd (process_audio_body env ap lt))"
proof -
  have tail: "list_all (\<lambda>c. call_language c = l) (snd (if c then audio_pipeline env t l
                 else ret (t, '''', ErrorDoc ''Transcription failed'', '''', '''', None)))"
    for c t
    by (simp add: audio_pipeline_language list_all_ret)
  have main: "list_all (\<lambda>c. call_language c = l) (snd (
            bind (invoke (Transcribe p l)
                    (transcribe_audio (assistant env) p l)) (\<lambda>transcription.
            bind (lift (log_transcription transcription)) (\<lambda>t.
            if t \<noteq> [] \<and> \<not> prefix ''Error'' t then audio_pipeline env t l
            else ret (t, '''', ErrorDoc ''Transcription failed'', '''', '''', None)))))" for p
    by (intro list_all_bind list_all_invoke list_all_lift tail) simp
  show ?thesis
    by (cases ap)
      (simp_all add: process_audio_body_def assms bind_lift_Inr list_all_ret main)
qed

lemma process_text_body_language:
  assumes "language_of lt = Inr l"
  shows "list_all (\<lambda>c. call_language c = l) (snd (process_text_body env ti lt))"
proof (cases "ti = []")
  case True
  then show ?thesis by (simp add: process_text_body_def list_all_ret)
next
  case False
  show ?thesis
    unfolding process_text_body_def Let_def split_def if_not_P [OF False] assms bind_lift_Inr
    by (intro list_all_bind list_all_invoke list_all_ret) simp_all
qed

lemma list_all_not_transcribe_text:
  "list_all (\<lambda>c. \<not> is_transcribe c) (snd (process_text_body env ti lt))"
proof (cases "ti = []")
  case True
  then show ?thesis by (simp add: process_text_body_def list_all_ret)
next
  case False
  show ?thesis
    unfolding process_text_body_def Let_def split_def if_not_P [OF False]
    by (intro list_all_bind list_all_invoke list_all_ret list_all_lift) simp_all
qed

section \<open>What a returning body has done\<close>

lemma bind_invoke_Inr:
  "(bind (invoke c r) f = (Inr y, tr)) =
     (\<exists>x tr2. r = Inr x \<and> f x = (Inr y, tr2) \<and> tr = c # tr2)"
  by (cases r) (auto simp: bind_def invoke_def split: prod.splits)

lemma bind_lift_Inr_iff:
  "(bind (lift r) f = (Inr y, tr)) = (\<exists>x. r = Inr x \<and> f x = (Inr y, tr))"
  by (cases r) (auto simp: bind_def lift_def split: prod.splits)

lemma ret_Inr: "(ret x = (Inr y, tr)) = (x = y \<and> tr = [])"
  by (auto simp: ret_def)

lemma try_except_Returned_cases:
  "try_except m h = (Returned r, tr) \<Longrightarrow>
   m = (Inr r, tr) \<or> (\<exists>e. m = (Inl e, tr) \<and> r = h e)"
  by (cases m) (auto simp: try_except_def split: sum.splits if_splits)

lemma process_text_body_Inr:
  assumes "process_text_body env ti lt = (Inr r, tr)" and "ti \<noteq> []"
  shows "\<exists>l n c pt pe.
           language_of lt = Inr l \<and>
           r = (ti, n, Content c, pt, pe, Some (text_tts_path env)) \<and>
           tr = [Analyze ti l, GenerateEmr ti l, GeneratePrescription n l,
                 Tts (n @ separator @ pe) (text_tts_path env) l]"
  using assms
  by (auto simp: process_text_body_def bind_lift_Inr_iff bind_invoke_Inr ret_Inr Let_def)

lemma audio_pipeline_Inr:
  assumes "audio_pipeline env t l = (Inr r, tr)"
  shows "\<exists>n c pt pe.
           r = (t, n, Content c, pt, pe, Some (audio_tts_path env)) \<and>
           tr = [Analyze t l, GenerateEmr t l, GeneratePrescription n l,
                 Tts (n @ separator @ pe) (audio_tts_path env) l]"
  using assms
  by (auto simp: audio_pipeline_def bind_invoke_Inr ret_Inr Let_def)

lemma process_audio_body_Inr_Some:
  assumes "process_audio_body env ap lt = (Inr (t, n, d, pt, pe, Some out), tr)"
  shows "\<exists>p l. language_of lt = Inr l \<and> out = audio_tts_path env \<and>
           tr = [Transcribe p l, Analyze t l, GenerateEmr t l, GeneratePrescription n l,
                 Tts (n @ separator @ pe) out l]"
  using assms
  by (auto simp: process_audio_body_def bind_lift_Inr_iff bind_invoke_Inr ret_Inr
      split: option.splits if_splits dest!: audio_pipeline_Inr)

section \<open>The name of the synthesized audio file\<close>

lemma digit_char_inj: "a < 10 \<Longrightarrow> b < 10 \<Longrightarrow> digit_char a = digit_char b \<Longrightarrow> a = b"
  by (simp add: digit_char_def nth_eq_iff_index_eq)

lemma digit_char_not_minus: "d < 10 \<Longrightarrow> digit_char d \<noteq> CHR ''-''"
  using nth_mem [of d "''0123456789''"] by (auto simp: digit_char_def)

lemma str_nat_small: "n < 10 \<Longrightarrow> str_nat n = [digit_char n]"
  by (simp add: str_nat.simps [of n])

lemma str_nat_large:
  "\<not> n < 10 \<Longrightarrow> str_nat n = str_nat (n div 10) @ [digit_char (n mod 10)]"
  by (simp add: str_nat.simps [of n])

lemma str_nat_nonempty: "str_nat n \<noteq> []"
  by (cases "n < 10") (simp_all add: str_nat_small str_nat_large)

lemma minus_notin_str_nat: "CHR ''-'' \<notin> set (str_nat n)"
proof (induction n rule: str_nat.induct)
  case (1 n)
  show ?case
  proof (cases "n < 10")
    case True
    then show ?thesis
      using digit_char_not_minus [of n] by (simp add: str_nat_small)
  next
    case False
    then show ?thesis
      using "1.IH" digit_char_not_minus [of "n mod 10"] by (simp add: str_nat_large)
  qed
qed

lemma str_nat_length_small: "k < 10 \<Longrightarrow> length (str_nat k) = 1"
  by (simp add: str_nat_small)

lemma str_nat_length_large:
  assumes "\<not> k < 10"
  shows "2 \<le> length (str_nat k)"
proof -
  have "str_nat (k div 10) \<noteq> []"
    by (rule str_nat_nonempty)
  then have "1 \<le> length (str_nat (k div 10))"
    by (cases "str_nat (k div 10)") simp_all
  then have "2 \<le> length (str_nat (k div 10) @ [digit_char (k mod 10)])"
    by simp
  then show ?thesis
    by (simp only: str_nat_large [OF assms])
qed

lemma str_nat_inj: "str_nat n = str_nat m \<Longrightarrow> n = m"
proof (induction n arbitrary: m rule: str_nat.induct)
  case (1 n)
  show ?case
  proof (cases "n < 10")
    case n_small: True
    show ?thesis
    proof (cases "m < 10")
      case True
      then show ?thesis
        using "1.prems" n_small digit_char_inj [of n m] by (simp add: str_nat_small)
    next
      case False
      have "length (str_nat n) = length (str_nat m)"
        using "1.prems" by (rule arg_cong)
      then show ?thesis
        using str_nat_length_large [OF False] str_nat_length_small [OF n_small] by simp
    qed
  next
    case n_large: False
    show ?thesis
    proof (cases "m < 10")
      case True
      have "length (str_nat n) = length (str_nat m)"
        using "1.prems" by (rule arg_cong)
      then show ?thesis
        using str_nat_length_large [OF n_large] str_nat_length_small [OF True] by simp
    next
      case False
      have "str_nat (n div 10) @ [digit_char (n mod 10)] =
            str_nat (m div 10) @ [digit_char (m mod 10)]"
        using "1.prems" by (simp only: str_nat_large [OF n_large] str_nat_large [OF False])
      then have eq: "str_nat (n div 10) = str_nat (m div 10)"
        and dg: "digit_char (n mod 10) = digit_char (m mod 10)"
        by simp_all
      have "n div 10 = m div 10"
        using "1.IH" [OF n_large eq] .
      moreover have "n mod 10 = m mod 10"
        using dg digit_char_inj [of "n mod 10" "m mod 10"] by simp
      ultimately show ?thesis
        by (metis div_mult_mod_eq)
    qed
  qed
qed

lemma str_int_inj: "str_int i = str_int j \<Longrightarrow> i = j"
proof -
  assume eq: "str_int i = str_int j"
  have neg_pos: "CHR ''-'' # xs \<noteq> str_nat k" for xs k
    using minus_notin_str_nat [of k] by (metis list.set_intros(1))
  show "i = j"
  proof (cases "i < 0")
    case i_neg: True
    show ?thesis
    proof (cases "j < 0")
      case True
      then have "nat (- i) = nat (- j)"
        using eq i_neg str_nat_inj by (simp add: str_int_def)
      then show ?thesis using i_neg True by simp
    next
      case False
      then show ?thesis
        using eq i_neg neg_pos by (simp add: str_int_def)
    qed
  next
    case i_pos: False
    show ?thesis
    proof (cases "j < 0")
      case True
      then show ?thesis
        using eq i_pos neg_pos [of "str_nat (nat (- j))" "nat i"] by (simp add: str_int_def)
    next
      case False
      then have "nat i = nat j"
        using eq i_pos str_nat_inj by (simp add: str_int_def)
      then show ?thesis using i_pos False by simp
    qed
  qed
qed

lemma path_join_inj:
  "path_join a b = path_join a b' \<Longrightarrow> \<not> prefix ''/'' b \<Longrightarrow> \<not> prefix ''/'' b' \<Longrightarrow> b = b'"
  by (auto simp: path_join_def split: if_splits)

lemma audio_tts_path_inj:
  assumes "gettempdir env1 = gettempdir env2"
    and "audio_tts_path env1 = audio_tts_path env2"
  shows "now env1 = now env2"
proof -
  have eq: "path_join (gettempdir env2)
              (''medical_notes_audio_'' @ str_int (now env1) @ ''.mp3'') =
            path_join (gettempdir env2)
              (''medical_notes_audio_'' @ str_int (now env2) @ ''.mp3'')"
    using assms by (simp add: audio_tts_path_def)
  have "str_int (now env1) = str_int (now env2)"
    using path_join_inj [OF eq] by simp
  then show ?thesis
    by (rule str_int_inj)
qed

lemma text_tts_path_inj:
  assumes "gettempdir env1 = gettempdir env2"
    and "text_tts_path env1 = text_tts_path env2"
  shows "now env1 = now env2"
proof -
  have eq: "path_join (gettempdir env2)
              (''text_notes_audio_'' @ str_int (now env1) @ ''.mp3'') =
            path_join (gettempdir env2)
              (''text_notes_audio_'' @ str_int (now env2) @ ''.mp3'')"
    using assms by (simp add: text_tts_path_def)
  have "str_int (now env1) = str_int (now env2)"
    using path_join_inj [OF eq] by simp
  then show ?thesis
    by (rule str_int_inj)
qed

lemma audio_text_tts_path_distinct:
  assumes "gettempdir env1 = gettempdir env2"
  shows "audio_tts_path env1 \<noteq> text_tts_path env2"
proof
  assume "audio_tts_path env1 = text_tts_path env2"
  then have eq: "path_join (gettempdir env2)
              (''medical_notes_audio_'' @ str_int (now env1) @ ''.mp3'') =
            path_join (gettempdir env2)
              (''text_notes_audio_'' @ str_int (now env2) @ ''.mp3'')"
    using assms by (simp add: audio_tts_path_def text_tts_path_def)
  show False
    using path_join_inj [OF eq] by simp
qed

lemma str_int_now: "str_int 1700000000 = ''1700000000''"
  by (simp add: str_int_def str_nat_large str_nat_small digit_char_def)

lemma example_audio_tts_path:
  "audio_tts_path (example_env a b) = ''/tmp/medical_notes_audio_1700000000.mp3''"
  by (simp add: audio_tts_path_def example_env_def path_join_def str_int_now)

lemma example_text_tts_path:
  "text_tts_path (example_env a b) = ''/tmp/text_notes_audio_1700000000.mp3''"
  by (simp add: text_tts_path_def example_env_def path_join_def str_int_now)

section \<open>Successful runs\<close>

lemma process_audio_success:
  assumes "p \<noteq> []" and "path_exists env p"
    and "language_of lt = Inr l"
    and "transcribe_audio (assistant env) p l = Inr (Some t)"
    and "t \<noteq> []" and "\<not> prefix ''Error'' t"
    and "analyze_text (assistant env) t l = Inr n"
    and "generate_emr_content (assistant env) t l = Inr c"
    and "generate_prescription (assistant env) n l = Inr (pt, pe)"
    and "text_to_speech_with_gtts (assistant env) (n @ separator @ pe)
           (audio_tts_path env) l = Inr ()"
  shows "process_audio env (Some p) lt =
           (Returned (t, n, Content c, pt, pe, Some (audio_tts_path env)),
            [Transcribe p l, Analyze t l, GenerateEmr t l, GeneratePrescription n l,
             Tts (n @ separator @ pe) (audio_tts_path env) l])"
  using assms
  by (simp add: process_audio_def process_audio_body_def audio_pipeline_def try_except_def
        bind_def lift_def invoke_def ret_def Let_def)

lemma process_text_success:
  assumes "ti \<noteq> []"
    and "language_of lt = Inr l"
    and "analyze_text (assistant env) ti l = Inr n"
    and "generate_emr_content (assistant env) ti l = Inr c"
    and "generate_prescription (assistant env) n l = Inr (pt, pe)"
    and "text_to_speech_with_gtts (assistant env) (n @ separator @ pe)
           (text_tts_path env) l = Inr ()"
  shows "process_text env ti lt =
           (Returned (ti, n, Content c, pt, pe, Some (text_tts_path env)),
            [Analyze ti l, GenerateEmr ti l, GeneratePrescription n l,
             Tts (n @ separator @ pe) (text_tts_path env) l])"
  using assms
  by (simp add: process_text_def process_text_body_def try_except_def
        bind_def lift_def invoke_def ret_def Let_def)

lemma example_audio_run:
  assumes "p = ''/tmp/visit.wav'' \<or> p = ''/tmp/upload.wav''"
    and "t \<noteq> []" and "\<not> prefix ''Error'' t"
  shows "process_audio (example_env (Inr (Some t)) (Inr n)) (Some p)
           (PyTuple [code, display_name]) =
           (Returned (t, n, Content [(''complaint'', ''headache'')], ''Paracetamol 500 mg'',
                      ''One tablet after meals'',
                      Some (audio_tts_path (example_env (Inr (Some t)) (Inr n)))),
            [Transcribe p code, Analyze t code, GenerateEmr t code,
             GeneratePrescription n code,
             Tts (n @ separator @ ''One tablet after meals'')
               (audio_tts_path (example_env (Inr (Some t)) (Inr n))) code])"
  using assms
  by (intro process_audio_success) (auto simp: example_env_def example_assistant_def)

lemma example_text_run:
  assumes "ti \<noteq> []"
  shows "process_text (example_env tr (Inr n)) ti (PyTuple [code, display_name]) =
           (Returned (ti, n, Content [(''complaint'', ''headache'')], ''Paracetamol 500 mg'',
                      ''One tablet after meals'',
                      Some (text_tts_path (example_env tr (Inr n)))),
            [Analyze ti code, GenerateEmr ti code, GeneratePrescription n code,
             Tts (n @ separator @ ''One tablet after meals'')
               (text_tts_path (example_env tr (Inr n))) code])"
  using assms
  by (intro process_text_success) (auto simp: example_env_def example_assistant_def)

section \<open>The outcomes of process_text\<close>

lemma process_text_success_imp:
  assumes "ti \<noteq> []"
  shows "language_of lt = Inr l \<and>
         analyze_text (assistant env) ti l = Inr n \<and>
         generate_emr_content (assistant env) ti l = Inr c \<and>
         generate_prescription (assistant env) n l = Inr (pt, pe) \<and>
         text_to_speech_with_gtts (assistant env) (n @ separator @ pe)
           (text_tts_path env) l = Inr () \<longrightarrow>
         process_text env ti lt =
           (Returned (ti, n, Content c, pt, pe, Some (text_tts_path env)),
            [Analyze ti l, GenerateEmr ti l, GeneratePrescription n l,
             Tts (n @ separator @ pe) (text_tts_path env) l])"
  by ((intro impI, elim conjE, rule process_text_success [OF assms]); assumption)

lemma process_text_fail_language:
  assumes "ti \<noteq> []"
  shows "language_of lt = Inl e \<longrightarrow>
         process_text env ti lt =
           (Returned (ti, ''Error processing text: '' @ str_exn e, ErrorDoc (str_exn e),
                      '''', '''', None), [])"
proof
  assume h: "language_of lt = Inl e"
  then have "exn_class_of e = Exception"
    using only_Exception_language_of [of lt] by (simp add: only_Exception_def)
  then show "process_text env ti lt =
           (Returned (ti, ''Error processing text: '' @ str_exn e, ErrorDoc (str_exn e),
                      '''', '''', None), [])"
    using assms h
    by (simp add: process_text_def process_text_body_def try_except_def bind_def lift_def
          invoke_def ret_def)
qed

lemma process_text_fail_analyze:
  assumes "ti \<noteq> []"
  shows "language_of lt = Inr l \<and>
         analyze_text (assistant env) ti l = Inl e \<and> exn_class_of e = Exception \<longrightarrow>
         process_text env ti lt =
           (Returned (ti, ''Error processing text: '' @ str_exn e, ErrorDoc (str_exn e),
                      '''', '''', None), [Analyze ti l])"
  using assms
  by (clarsimp simp: process_text_def process_text_body_def try_except_def bind_def lift_def
        invoke_def ret_def Let_def)

lemma process_text_fail_emr:
  assumes "ti \<noteq> []"
  shows "language_of lt = Inr l \<and>
         analyze_text (assistant env) ti l = Inr n \<and>
         generate_emr_content (assistant env) ti l = Inl e \<and> exn_class_of e = Exception \<longrightarrow>
         process_text env ti lt =
           (Returned (ti, ''Error processing text: '' @ str_exn e, ErrorDoc (str_exn e),
                      '''', '''', None), [Analyze ti l, GenerateEmr ti l])"
  using assms
  by (clarsimp simp: process_text_def process_text_body_def try_except_def bind_def lift_def
        invoke_def ret_def Let_def)

lemma process_text_fail_prescription:
  assumes "ti \<noteq> []"
  shows "language_of lt = Inr l \<and>
         analyze_text (assistant env) ti l = Inr n \<and>
         generate_emr_content (assistant env) ti l = Inr c \<and>
         generate_prescription (assistant env) n l = Inl e \<and> exn_class_of e = Exception \<longrightarrow>
         process_text env ti lt =
           (Returned (ti, ''Error processing text: '' @ str_exn e, ErrorDoc (str_exn e),
                      '''', '''', None),
            [Analyze ti l, GenerateEmr ti l, GeneratePrescription n l])"
  using assms
  by (clarsimp simp: process_text_def process_text_body_def try_except_def bind_def lift_def
        invoke_def ret_def Let_def)

lemma process_text_fail_speech:
  assumes "ti \<noteq> []"
  shows "language_of lt = Inr l \<and>
         analyze_text (assistant env) ti l = Inr n \<and>
         generate_emr_content (assistant env) ti l = Inr c \<and>
         generate_prescription (assistant env) n l = Inr (pt, pe) \<and>
         text_to_speech_with_gtts (assistant env) (n @ separator @ pe)
           (text_tts_path env) l = Inl e \<and> exn_class_of e = Exception \<longrightarrow>
         process_text env ti lt =
           (Returned (ti, ''Error processing text: '' @ str_exn e, ErrorDoc (str_exn e),
                      '''', '''', None),
            [Analyze ti l, GenerateEmr ti l, GeneratePrescription n l,
             Tts (n @ separator @ pe) (text_tts_path env) l])"
  using assms
  by (clarsimp simp: process_text_def process_text_body_def try_except_def bind_def lift_def
        invoke_def ret_def Let_def)

lemma process_text_total:
  assumes "ti \<noteq> []"
  shows "raises_only_Exception (assistant env) \<longrightarrow>
         (\<exists>r tr. process_text env ti lt = (Returned r, tr) \<and> fst r = ti)"
proof
  assume R: "raises_only_Exception (assistant env)"
  have "\<exists>r tr. process_text env ti lt = (Returned r, tr)"
    unfolding process_text_def
    by (rule try_except_Returned) (rule process_text_body_only_Exception [OF R])
  then obtain r tr where eq: "process_text env ti lt = (Returned r, tr)"
    by blast
  have te: "try_except (process_text_body env ti lt)
              (\<lambda>e. (ti, ''Error processing text: '' @ str_exn e, ErrorDoc (str_exn e),
                    '''', '''', None)) = (Returned r, tr)"
    using eq by (simp add: process_text_def)
  have "fst r = ti"
    using try_except_Returned_cases [OF te] process_text_body_Inr [of env ti lt r tr] assms
    by auto
  then show "\<exists>r tr. process_text env ti lt = (Returned r, tr) \<and> fst r = ti"
    using eq by blast
qed

lemma process_text_no_transcription:
  "list_all (\<lambda>c. \<not> is_transcribe c) (snd (process_text env ti lt))"
  by (simp add: process_text_def snd_try_except list_all_not_transcribe_text)

text \<open>
  Claim C6. For every non-empty text input \<open>process_text\<close> returns the input text itself
  as first field, in the successful outcome and in the exception outcome, and invokes no
  transcription. The successful outcome: when the language is extracted and the four stages
  answer, the result is the input, the notes, the EMR content, the prescription, the
  explanation and the audio path, after exactly the four calls. The exception outcome: when
  the language extraction or any one stage raises an \<^verbatim>\<open>Exception\<close>, the result is the
  input, the message "Error processing text: ..." as notes, the error document, and empty
  values, after the calls made up to the failing one. Whenever the assistant raises nothing
  but instances of \<^verbatim>\<open>Exception\<close>, \<open>process_text\<close> returns, and with the input as first
  field. No call of a run is a transcription.
\<close>

theorem process_text_returns_input:
  assumes "text_input \<noteq> []"
  shows
    "(language_of language_tuple = Inr l \<and>
      analyze_text (assistant env) text_input l = Inr n \<and>
      generate_emr_content (assistant env) text_input l = Inr c \<and>
      generate_prescription (assistant env) n l = Inr (pt, pe) \<and>
      text_to_speech_with_gtts (assistant env) (n @ separator @ pe)
        (text_tts_path env) l = Inr () \<longrightarrow>
      process_text env text_input language_tuple =
        (Returned (text_input, n, Content c, pt, pe, Some (text_tts_path env)),
         [Analyze text_input l, GenerateEmr text_input l, GeneratePrescription n l,
          Tts (n @ separator @ pe) (text_tts_path env) l])) \<and>
     (language_of language_tuple = Inl e \<longrightarrow>
      process_text env text_input language_tuple =
        (Returned (text_input, ''Error processing text: '' @ str_exn e, ErrorDoc (str_exn e),
                   '''', '''', None), [])) \<and>
     (language_of language_tuple = Inr l \<and>
      analyze_text (assistant env) text_input l = Inl e \<and> exn_class_of e = Exception \<longrightarrow>
      process_text env text_input language_tuple =
        (Returned (text_input, ''Error processing text: '' @ str_exn e, ErrorDoc (str_exn e),
                   '''', '''', None), [Analyze text_input l])) \<and>
     (language_of language_tuple = Inr l \<and>
      analyze_text (assistant env) text_input l = Inr n \<and>
      generate_emr_content (assistant env) text_input l = Inl e \<and>
      exn_class_of e = Exception \<longrightarrow>
      process_text env text_input language_tuple =
        (Returned (text_input, ''Error processing text: '' @ str_exn e, ErrorDoc (str_exn e),
                   '''', '''', None), [Analyze text_input l, GenerateEmr text_input l])) \<and>
     (language_of language_tuple = Inr l \<and>
      analyze_text (assistant env) text_input l = Inr n \<and>
      generate_emr_content (assistant env) text_input l = Inr c \<and>
      generate_prescription (assistant env) n l = Inl e \<and> exn_class_of e = Exception \<longrightarrow>
      process_text env text_input language_tuple =
        (Returned (text_input, ''Error processing text: '' @ str_exn e, ErrorDoc (str_exn e),
                   '''', '''', None),
         [Analyze text_input l, GenerateEmr text_input l, GeneratePrescription n l])) \<and>
     (language_of language_tuple = Inr l \<and>
      analyze_text (assistant env) text_input l = Inr n \<and>
      generate_emr_content (assistant env) text_input l = Inr c \<and>
      generate_prescription (assistant env) n l = Inr (pt, pe) \<and>
      text_to_speech_with_gtts (assistant env) (n @ separator @ pe)
        (text_tts_path env) l = Inl e \<and> exn_class_of e = Exception \<longrightarrow>
      process_text env text_input language_tuple =
        (Returned (text_input, ''Error processing text: '' @ str_exn e, ErrorDoc (str_exn e),
                   '''', '''', None),
         [Analyze text_input l, GenerateEmr text_input l, GeneratePrescription n l,
          Tts (n @ separator @ pe) (text_tts_path env) l])) \<and>
     (raises_only_Exception (assistant env) \<longrightarrow>
      (\<exists>r tr. process_text env text_input language_tuple = (Returned r, tr) \<and>
              fst r = text_input)) \<and>
     list_all (\<lambda>c. \<not> is_transcribe c) (snd (process_text env text_input language_tuple))"
  by (intro conjI process_text_success_imp [OF assms] process_text_fail_language [OF assms]
        process_text_fail_analyze [OF assms] process_text_fail_emr [OF assms]
        process_text_fail_prescription [OF assms] process_text_fail_speech [OF assms]
        process_text_total [OF assms] process_text_no_transcription)

theorem process_text_returns_input_witness:
  "''Patient reports headache for 2 days'' \<noteq> [] \<and>
   process_text (example_env (Inr (Some ''hello'')) (Inr ''notes''))
       ''Patient reports headache for 2 days'' english =
     (Returned (''Patient reports headache for 2 days'', ''notes'',
                Content [(''complaint'', ''headache'')],
                ''Paracetamol 500 mg'', ''One tablet after meals'',
                Some ''/tmp/text_notes_audio_1700000000.mp3''),
      [Analyze ''Patient reports headache for 2 days'' (PyStr ''en''),
       GenerateEmr ''Patient reports headache for 2 days'' (PyStr ''en''),
       GeneratePrescription ''notes'' (PyStr ''en''),
       Tts (''notes'' @ separator @ ''One tablet after meals'')
         ''/tmp/text_notes_audio_1700000000.mp3'' (PyStr ''en'')]) \<and>
   process_text (example_env (Inr (Some ''hello'')) (Inr ''notes''))
       ''Patient reports headache for 2 days'' (PyTuple []) =
     (Returned (''Patient reports headache for 2 days'',
                ''Error processing text: tuple index out of range'',
                ErrorDoc ''tuple index out of range'', '''', '''', None), []) \<and>
   process_text (example_env (Inr (Some ''hello'')) (Inl (Exn Exception ''quota exceeded'')))
       ''Patient reports headache for 2 days'' english =
     (Returned (''Patient reports headache for 2 days'',
                ''Error processing text: quota exceeded'',
                ErrorDoc ''quota exceeded'', '''', '''', None),
      [Analyze ''Patient reports headache for 2 days'' (PyStr ''en'')]) \<and>
   process_text (example_env_with (Inl (Exn Exception ''no record'')) (Inr (''P'', ''X''))
        (Inr ())) ''Patient reports headache for 2 days'' english =
     (Returned (''Patient reports headache for 2 days'',
                ''Error processing text: no record'',
                ErrorDoc ''no record'', '''', '''', None),
      [Analyze ''Patient reports headache for 2 days'' (PyStr ''en''),
       GenerateEmr ''Patient reports headache for 2 days'' (PyStr ''en'')]) \<and>
   process_text (example_env_with (Inr [(''complaint'', ''headache'')])
        (Inl (Exn Exception ''no answer'')) (Inr ()))
        ''Patient reports headache for 2 days'' english =
     (Returned (''Patient reports headache for 2 days'',
                ''Error processing text: no answer'',
                ErrorDoc ''no answer'', '''', '''', None),
      [Analyze ''Patient reports headache for 2 days'' (PyStr ''en''),
       GenerateEmr ''Patient reports headache for 2 days'' (PyStr ''en''),
       GeneratePrescription ''notes'' (PyStr ''en'')]) \<and>
   process_text (example_env_with (Inr [(''complaint'', ''headache'')])
        (Inr (''P'', ''X'')) (Inl (Exn Exception ''no network'')))
        ''Patient reports headache for 2 days'' english =
     (Returned (''Patient reports headache for 2 days'',
                ''Error processing text: no network'',
                ErrorDoc ''no network'', '''', '''', None),
      [Analyze ''Patient reports headache for 2 days'' (PyStr ''en''),
       GenerateEmr ''Patient reports headache for 2 days'' (PyStr ''en''),
       GeneratePrescription ''notes'' (PyStr ''en''),
       Tts (''notes'' @ separator @ ''X'') ''/tmp/text_notes_audio_1700000000.mp3''
         (PyStr ''en'')]) \<and>
   raises_only_Exception
     (assistant (example_env (Inr (Some ''hello''))
        (Inl (Exn Exception ''quota exceeded'')))) \<and>
   (\<exists>r tr. process_text (example_env (Inr (Some ''hello''))
               (Inl (Exn Exception ''quota exceeded'')))
             ''Patient reports headache for 2 days'' english = (Returned r, tr) \<and>
           fst r = ''Patient reports headache for 2 days'')"
proof -
  have ne: "''Patient reports headache for 2 days'' \<noteq> []"
    by simp
  have path: "text_tts_path (example_env_with a b c) = ''/tmp/text_notes_audio_1700000000.mp3''"
    for a b c
    by (simp add: text_tts_path_def example_env_with_def path_join_def str_int_now)
  have w1: "process_text (example_env (Inr (Some ''hello'')) (Inr ''notes''))
       ''Patient reports headache for 2 days'' english =
     (Returned (''Patient reports headache for 2 days'', ''notes'',
                Content [(''complaint'', ''headache'')],
                ''Paracetamol 500 mg'', ''One tablet after meals'',
                Some ''/tmp/text_notes_audio_1700000000.mp3''),
      [Analyze ''Patient reports headache for 2 days'' (PyStr ''en''),
       GenerateEmr ''Patient reports headache for 2 days'' (PyStr ''en''),
       GeneratePrescription ''notes'' (PyStr ''en''),
       Tts (''notes'' @ separator @ ''One tablet after meals'')
         ''/tmp/text_notes_audio_1700000000.mp3'' (PyStr ''en'')])"
    using process_text_returns_input
            [where text_input = "''Patient reports headache for 2 days''"
               and env = "example_env (Inr (Some ''hello'')) (Inr ''notes'')"
               and language_tuple = english and l = "PyStr ''en''" and n = "''notes''"
               and c = "[(''complaint'', ''headache'')]" and pt = "''Paracetamol 500 mg''"
               and pe = "''One tablet after meals''", OF ne, THEN conjunct1]
    by (simp add: example_text_tts_path)
      (simp add: example_env_def example_assistant_def english_def)
  have w2: "process_text (example_env (Inr (Some ''hello'')) (Inr ''notes''))
       ''Patient reports headache for 2 days'' (PyTuple []) =
     (Returned (''Patient reports headache for 2 days'',
                ''Error processing text: tuple index out of range'',
                ErrorDoc ''tuple index out of range'', '''', '''', None), [])"
    using process_text_returns_input
            [where text_input = "''Patient reports headache for 2 days''"
               and env = "example_env (Inr (Some ''hello'')) (Inr ''notes'')"
               and language_tuple = "PyTuple []"
               and e = "Exn Exception ''tuple index out of range''",
             OF ne, THEN conjunct2, THEN conjunct1]
    by simp
  have w3: "process_text (example_env (Inr (Some ''hello''))
        (Inl (Exn Exception ''quota exceeded'')))
       ''Patient reports headache for 2 days'' english =
     (Returned (''Patient reports headache for 2 days'',
                ''Error processing text: quota exceeded'',
                ErrorDoc ''quota exceeded'', '''', '''', None),
      [Analyze ''Patient reports headache for 2 days'' (PyStr ''en'')])"
    using process_text_returns_input
            [where text_input = "''Patient reports headache for 2 days''"
               and env = "example_env (Inr (Some ''hello''))
                            (Inl (Exn Exception ''quota exceeded''))"
               and language_tuple = english and l = "PyStr ''en''"
               and e = "Exn Exception ''quota exceeded''",
             OF ne, THEN conjunct2, THEN conjunct2, THEN conjunct1]
    by (simp add: example_env_def example_assistant_def english_def)
  have w4: "process_text (example_env_with (Inl (Exn Exception ''no record''))
        (Inr (''P'', ''X'')) (Inr ())) ''Patient reports headache for 2 days'' english =
     (Returned (''Patient reports headache for 2 days'',
                ''Error processing text: no record'',
                ErrorDoc ''no record'', '''', '''', None),
      [Analyze ''Patient reports headache for 2 days'' (PyStr ''en''),
       GenerateEmr ''Patient reports headache for 2 days'' (PyStr ''en'')])"
    using process_text_returns_input
            [where text_input = "''Patient reports headache for 2 days''"
               and env = "example_env_with (Inl (Exn Exception ''no record''))
                            (Inr (''P'', ''X'')) (Inr ())"
               and language_tuple = english and l = "PyStr ''en''" and n = "''notes''"
               and e = "Exn Exception ''no record''",
             OF ne, THEN conjunct2, THEN conjunct2, THEN conjunct2, THEN conjunct1]
    by (simp add: example_env_with_def english_def)
  have w5: "process_text (example_env_with (Inr [(''complaint'', ''headache'')])
        (Inl (Exn Exception ''no answer'')) (Inr ()))
        ''Patient reports headache for 2 days'' english =
     (Returned (''Patient reports headache for 2 days'',
                ''Error processing text: no answer'',
                ErrorDoc ''no answer'', '''', '''', None),
      [Analyze ''Patient reports headache for 2 days'' (PyStr ''en''),
       GenerateEmr ''Patient reports headache for 2 days'' (PyStr ''en''),
       GeneratePrescription ''notes'' (PyStr ''en'')])"
    using process_text_returns_input
            [where text_input = "''Patient reports headache for 2 days''"
               and env = "example_env_with (Inr [(''complaint'', ''headache'')])
                            (Inl (Exn Exception ''no answer'')) (Inr ())"
               and language_tuple = english and l = "PyStr ''en''" and n = "''notes''"
               and c = "[(''complaint'', ''headache'')]"
               and e = "Exn Exception ''no answer''",
             OF ne, THEN conjunct2, THEN conjunct2, THEN conjunct2, THEN conjunct2,
             THEN conjunct1]
    by (simp add: example_env_with_def english_def)
  have w6: "process_text (example_env_with (Inr [(''complaint'', ''headache'')])
        (Inr (''P'', ''X'')) (Inl (Exn Exception ''no network'')))
        ''Patient reports headache for 2 days'' english =
     (Returned (''Patient reports headache for 2 days'',
                ''Error processing text: no network'',
                ErrorDoc ''no network'', '''', '''', None),
      [Analyze ''Patient reports headache for 2 days'' (PyStr ''en''),
       GenerateEmr ''Patient reports headache for 2 days'' (PyStr ''en''),
       GeneratePrescription ''notes'' (PyStr ''en''),
       Tts (''notes'' @ separator @ ''X'') ''/tmp/text_notes_audio_1700000000.mp3''
         (PyStr ''en'')])"
    using process_text_returns_input
            [where text_input = "''Patient reports headache for 2 days''"
               and env = "example_env_with (Inr [(''complaint'', ''headache'')])
                            (Inr (''P'', ''X'')) (Inl (Exn Exception ''no network''))"
               and language_tuple = english and l = "PyStr ''en''" and n = "''notes''"
               and c = "[(''complaint'', ''headache'')]" and pt = "''P''" and pe = "''X''"
               and e = "Exn Exception ''no network''",
             OF ne, THEN conjunct2, THEN conjunct2, THEN conjunct2, THEN conjunct2,
             THEN conjunct2, THEN conjunct1]
    by (simp add: path) (simp add: example_env_with_def english_def)
  have h: "raises_only_Exception
     (assistant (example_env (Inr (Some ''hello''))
        (Inl (Exn Exception ''quota exceeded''))))"
    by (simp add: raises_only_Exception_def only_Exception_def example_env_def
          example_assistant_def)
  have w7: "\<exists>r tr. process_text (example_env (Inr (Some ''hello''))
               (Inl (Exn Exception ''quota exceeded'')))
             ''Patient reports headache for 2 days'' english = (Returned r, tr) \<and>
           fst r = ''Patient reports headache for 2 days''"
    using h process_text_returns_input
            [where text_input = "''Patient reports headache for 2 days''"
               and env = "example_env (Inr (Some ''hello''))
                            (Inl (Exn Exception ''quota exceeded''))"
               and language_tuple = english,
             OF ne, THEN conjunct2, THEN conjunct2, THEN conjunct2, THEN conjunct2,
             THEN conjunct2, THEN conjunct2, THEN conjunct1]
    by blast
  show ?thesis
    by (rule conjI [OF ne conjI [OF w1 conjI [OF w2 conjI [OF w3 conjI [OF w4
          conjI [OF w5 conjI [OF w6 conjI [OF h w7]]]]]]]])
qed

section \<open>The language every call receives\<close>

text \<open>Were a tuple to arrive as language value, its first component is what every call
  of the run receives.\<close>

lemma language_of_tuple_reaches_every_call:
  "list_all (\<lambda>c. call_language c = code)
     (snd (process_audio env ap (PyTuple [code, display_name]))) \<and>
   list_all (\<lambda>c. call_language c = code)
     (snd (process_text env text_input (PyTuple [code, display_name])))"
  by (simp add: process_audio_def process_text_def snd_try_except
        process_audio_body_language process_text_body_language)

lemma example_audio_run_en:
  assumes "p = ''/tmp/visit.wav'' \<or> p = ''/tmp/upload.wav''"
    and "t \<noteq> []" and "\<not> prefix ''Error'' t"
    and "language_of lt = Inr (PyStr ''en'')"
  shows "process_audio (example_env (Inr (Some t)) (Inr n)) (Some p) lt =
           (Returned (t, n, Content [(''complaint'', ''headache'')], ''Paracetamol 500 mg'',
                      ''One tablet after meals'',
                      Some (audio_tts_path (example_env (Inr (Some t)) (Inr n)))),
            [Transcribe p (PyStr ''en''), Analyze t (PyStr ''en''),
             GenerateEmr t (PyStr ''en''), GeneratePrescription n (PyStr ''en''),
             Tts (n @ separator @ ''One tablet after meals'')
               (audio_tts_path (example_env (Inr (Some t)) (Inr n))) (PyStr ''en'')])"
  using assms
  by (intro process_audio_success) (auto simp: example_env_def example_assistant_def)

lemma example_text_run_en:
  assumes "ti \<noteq> []" and "language_of lt = Inr (PyStr ''en'')"
  shows "process_text (example_env tr (Inr n)) ti lt =
           (Returned (ti, n, Content [(''complaint'', ''headache'')], ''Paracetamol 500 mg'',
                      ''One tablet after meals'',
                      Some (text_tts_path (example_env tr (Inr n)))),
            [Analyze ti (PyStr ''en''), GenerateEmr ti (PyStr ''en''),
             GeneratePrescription n (PyStr ''en''),
             Tts (n @ separator @ ''One tablet after meals'')
               (text_tts_path (example_env tr (Inr n))) (PyStr ''en'')])"
  using assms
  by (intro process_text_success) (auto simp: example_env_def example_assistant_def)

lemma non_tuple_language_text:
  assumes "language_of lt = Inr (PyStr ''en'')"
  shows "list_all (\<lambda>c. call_language c = PyStr ''en'') (snd (process_text env ti lt))"
  using assms by (simp add: process_text_def snd_try_except process_text_body_language)

lemma non_tuple_language_audio:
  assumes "language_of lt = Inr (PyStr ''en'')"
  shows "list_all (\<lambda>c. call_language c = PyStr ''en'') (snd (process_audio env ap lt))"
  using assms by (simp add: process_audio_def snd_try_except process_audio_body_language)

text \<open>
  Claim C9. The claim asks that the language selection reach every assistant call
  unchanged. The handlers are wired to dropdowns of type "value" whose choices are pairs
  (lines 223 to 228, 265 to 270), so what arrives is a string, the second component of the
  chosen pair, or a list, never a tuple. For every such value the test of lines 132 and 176
  fails and every call of either handler receives "en": for the choice ("hi", "Hindi"), be
  it delivered as the string "Hindi" or as the list ["hi", "Hindi"], the four calls of a
  text run and the five calls of an audio run all receive "en", and no call receives "hi",
  "Hindi" or the list.
\<close>

theorem language_selection_discarded:
  "list_all (\<lambda>c. call_language c = PyStr ''en'') (snd (process_text env text_input (PyStr s))) \<and>
   list_all (\<lambda>c. call_language c = PyStr ''en'') (snd (process_text env text_input (PyList xs))) \<and>
   list_all (\<lambda>c. call_language c = PyStr ''en'') (snd (process_audio env ap (PyStr s))) \<and>
   list_all (\<lambda>c. call_language c = PyStr ''en'') (snd (process_audio env ap (PyList xs))) \<and>
   map call_language
     (snd (process_text (example_env (Inr (Some ''hello'')) (Inr ''notes''))
        ''Patient reports headache for 2 days'' (PyStr ''Hindi''))) =
     [PyStr ''en'', PyStr ''en'', PyStr ''en'', PyStr ''en''] \<and>
   map call_language
     (snd (process_text (example_env (Inr (Some ''hello'')) (Inr ''notes''))
        ''Patient reports headache for 2 days'' (PyList [PyStr ''hi'', PyStr ''Hindi'']))) =
     [PyStr ''en'', PyStr ''en'', PyStr ''en'', PyStr ''en''] \<and>
   map call_language
     (snd (process_audio (example_env (Inr (Some ''hello'')) (Inr ''notes''))
        (Some ''/tmp/visit.wav'') (PyStr ''Hindi''))) =
     [PyStr ''en'', PyStr ''en'', PyStr ''en'', PyStr ''en'', PyStr ''en''] \<and>
   map call_language
     (snd (process_audio (example_env (Inr (Some ''hello'')) (Inr ''notes''))
        (Some ''/tmp/visit.wav'') (PyList [PyStr ''hi'', PyStr ''Hindi'']))) =
     [PyStr ''en'', PyStr ''en'', PyStr ''en'', PyStr ''en'', PyStr ''en'']"
  by (simp add: non_tuple_language_text non_tuple_language_audio example_text_run_en
        example_audio_run_en)

section \<open>Speech synthesis\<close>

text \<open>
  Claim C8, as the code has it. For every run of \<open>process_audio\<close> or \<open>process_text\<close>
  that returns an audio path, the last call of the run is the speech synthesis, invoked with
  the medical notes, the separator and the prescription explanation concatenated, and with
  that audio path, which is the temporary directory joined with
  \<^verbatim>\<open>medical_notes_audio_<seconds>.mp3\<close> (audio mode) or \<^verbatim>\<open>text_notes_audio_<seconds>.mp3\<close>
  (text mode), the seconds being the clock reading of the run. With one temporary
  directory, the paths of two runs differ when their clock seconds differ, and the path of
  an audio run differs from the path of a text run.
\<close>

theorem tts_call_and_output_path:
  "(process_audio env ap language_tuple = (Returned (t, n, d, p, x, Some out), tr) \<longrightarrow>
      out = audio_tts_path env \<and>
      (\<exists>l. language_of language_tuple = Inr l \<and> last tr = Tts (n @ separator @ x) out l)) \<and>
   (process_text env text_input language_tuple =
        (Returned (t', n', d', p', x', Some out'), tr') \<longrightarrow>
      out' = text_tts_path env \<and>
      (\<exists>l. language_of language_tuple = Inr l \<and>
           last tr' = Tts (n' @ separator @ x') out' l)) \<and>
   (gettempdir env1 = gettempdir env2 \<and> now env1 \<noteq> now env2 \<longrightarrow>
      audio_tts_path env1 \<noteq> audio_tts_path env2 \<and>
      text_tts_path env1 \<noteq> text_tts_path env2) \<and>
   (gettempdir env1 = gettempdir env2 \<longrightarrow> audio_tts_path env1 \<noteq> text_tts_path env2)"
proof (intro conjI impI)
  assume run: "process_audio env ap language_tuple = (Returned (t, n, d, p, x, Some out), tr)"
  then have body: "process_audio_body env ap language_tuple =
                     (Inr (t, n, d, p, x, Some out), tr)"
    using try_except_Returned_cases
            [of "process_audio_body env ap language_tuple" _ "(t, n, d, p, x, Some out)" tr]
    by (auto simp: process_audio_def)
  from process_audio_body_Inr_Some [OF body]
  show "out = audio_tts_path env" by auto
  from process_audio_body_Inr_Some [OF body]
  show "\<exists>l. language_of language_tuple = Inr l \<and> last tr = Tts (n @ separator @ x) out l"
    by auto
next
  assume run: "process_text env text_input language_tuple =
                 (Returned (t', n', d', p', x', Some out'), tr')"
  then have body: "process_text_body env text_input language_tuple =
                     (Inr (t', n', d', p', x', Some out'), tr')"
    using try_except_Returned_cases
            [of "process_text_body env text_input language_tuple" _
                "(t', n', d', p', x', Some out')" tr']
    by (auto simp: process_text_def)
  have nonempty: "text_input \<noteq> []"
    using body by (auto simp: process_text_body_def ret_def)
  from process_text_body_Inr [OF body nonempty]
  show "out' = text_tts_path env" by auto
  from process_text_body_Inr [OF body nonempty]
  show "\<exists>l. language_of language_tuple = Inr l \<and>
            last tr' = Tts (n' @ separator @ x') out' l"
    by auto
next
  assume "gettempdir env1 = gettempdir env2 \<and> now env1 \<noteq> now env2"
  then show "audio_tts_path env1 \<noteq> audio_tts_path env2"
    using audio_tts_path_inj [of env1 env2] by auto
next
  assume "gettempdir env1 = gettempdir env2 \<and> now env1 \<noteq> now env2"
  then show "text_tts_path env1 \<noteq> text_tts_path env2"
    using text_tts_path_inj [of env1 env2] by auto
next
  assume "gettempdir env1 = gettempdir env2"
  then show "audio_tts_path env1 \<noteq> text_tts_path env2"
    by (rule audio_text_tts_path_distinct)
qed

theorem tts_call_and_output_path_witness:
  "process_audio (example_env (Inr (Some ''hello'')) (Inr ''notes''))
       (Some ''/tmp/visit.wav'') (PyTuple [PyStr ''en'', PyStr ''English'']) =
     (Returned (''hello'', ''notes'', Content [(''complaint'', ''headache'')],
                ''Paracetamol 500 mg'', ''One tablet after meals'',
                Some (audio_tts_path (example_env (Inr (Some ''hello'')) (Inr ''notes'')))),
      [Transcribe ''/tmp/visit.wav'' (PyStr ''en''), Analyze ''hello'' (PyStr ''en''),
       GenerateEmr ''hello'' (PyStr ''en''), GeneratePrescription ''notes'' (PyStr ''en''),
       Tts (''notes'' @ separator @ ''One tablet after meals'')
         (audio_tts_path (example_env (Inr (Some ''hello'')) (Inr ''notes'')))
         (PyStr ''en'')]) \<and>
   process_text (example_env (Inr (Some ''hello'')) (Inr ''notes''))
       ''Patient reports headache for 2 days'' (PyTuple [PyStr ''en'', PyStr ''English'']) =
     (Returned (''Patient reports headache for 2 days'', ''notes'',
                Content [(''complaint'', ''headache'')],
                ''Paracetamol 500 mg'', ''One tablet after meals'',
                Some (text_tts_path (example_env (Inr (Some ''hello'')) (Inr ''notes'')))),
      [Analyze ''Patient reports headache for 2 days'' (PyStr ''en''),
       GenerateEmr ''Patient reports headache for 2 days'' (PyStr ''en''),
       GeneratePrescription ''notes'' (PyStr ''en''),
       Tts (''notes'' @ separator @ ''One tablet after meals'')
         (text_tts_path (example_env (Inr (Some ''hello'')) (Inr ''notes'')))
         (PyStr ''en'')]) \<and>
   gettempdir (example_env (Inr (Some ''hello'')) (Inr ''notes'')) =
     gettempdir ((example_env (Inr (Some ''hello'')) (Inr ''notes''))\<lparr>now := 1700000001\<rparr>) \<and>
   now (example_env (Inr (Some ''hello'')) (Inr ''notes'')) \<noteq>
     now ((example_env (Inr (Some ''hello'')) (Inr ''notes''))\<lparr>now := 1700000001\<rparr>) \<and>
   audio_tts_path (example_env (Inr (Some ''hello'')) (Inr ''notes'')) \<noteq>
     audio_tts_path ((example_env (Inr (Some ''hello'')) (Inr ''notes''))\<lparr>now := 1700000001\<rparr>) \<and>
   text_tts_path (example_env (Inr (Some ''hello'')) (Inr ''notes'')) \<noteq>
     text_tts_path ((example_env (Inr (Some ''hello'')) (Inr ''notes''))\<lparr>now := 1700000001\<rparr>) \<and>
   audio_tts_path (example_env (Inr (Some ''hello'')) (Inr ''notes'')) \<noteq>
     text_tts_path ((example_env (Inr (Some ''hello'')) (Inr ''notes''))\<lparr>now := 1700000001\<rparr>)"
proof -
  let ?E = "example_env (Inr (Some ''hello'')) (Inr ''notes'')"
  let ?E' = "?E\<lparr>now := 1700000001\<rparr>"
  have a: "process_audio ?E (Some ''/tmp/visit.wav'') (PyTuple [PyStr ''en'', PyStr ''English'']) =
     (Returned (''hello'', ''notes'', Content [(''complaint'', ''headache'')],
                ''Paracetamol 500 mg'', ''One tablet after meals'', Some (audio_tts_path ?E)),
      [Transcribe ''/tmp/visit.wav'' (PyStr ''en''), Analyze ''hello'' (PyStr ''en''),
       GenerateEmr ''hello'' (PyStr ''en''), GeneratePrescription ''notes'' (PyStr ''en''),
       Tts (''notes'' @ separator @ ''One tablet after meals'') (audio_tts_path ?E)
         (PyStr ''en'')])"
    by (rule example_audio_run) simp_all
  have b: "process_text ?E ''Patient reports headache for 2 days''
       (PyTuple [PyStr ''en'', PyStr ''English'']) =
     (Returned (''Patient reports headache for 2 days'', ''notes'',
                Content [(''complaint'', ''headache'')],
                ''Paracetamol 500 mg'', ''One tablet after meals'', Some (text_tts_path ?E)),
      [Analyze ''Patient reports headache for 2 days'' (PyStr ''en''),
       GenerateEmr ''Patient reports headache for 2 days'' (PyStr ''en''),
       GeneratePrescription ''notes'' (PyStr ''en''),
       Tts (''notes'' @ separator @ ''One tablet after meals'') (text_tts_path ?E)
         (PyStr ''en'')])"
    by (rule example_text_run) simp
  have c: "gettempdir ?E = gettempdir ?E'"
    by simp
  have d: "now ?E \<noteq> now ?E'"
    by (simp add: example_env_def)
  have e: "audio_tts_path ?E \<noteq> audio_tts_path ?E' \<and> text_tts_path ?E \<noteq> text_tts_path ?E'"
    using tts_call_and_output_path
            [THEN conjunct2, THEN conjunct2, THEN conjunct1, THEN mp, OF conjI [OF c d]] .
  have f: "audio_tts_path ?E \<noteq> text_tts_path ?E'"
    using tts_call_and_output_path
            [THEN conjunct2, THEN conjunct2, THEN conjunct2, THEN mp, OF c] .
  show ?thesis
    by (rule conjI [OF a conjI [OF b conjI [OF c conjI [OF d
          conjI [OF conjunct1 [OF e] conjI [OF conjunct2 [OF e] f]]]]]])
qed

text \<open>The name has the resolution of one second: two runs on different recordings within
  the same clock second are given the same output path.\<close>

theorem tts_path_same_second:
  "audio_of (process_audio (example_env (Inr (Some ''hello'')) (Inr ''notes''))
       (Some ''/tmp/visit.wav'') english) =
     Some ''/tmp/medical_notes_audio_1700000000.mp3'' \<and>
   audio_of (process_audio (example_env (Inr (Some ''good morning'')) (Inr ''other notes''))
       (Some ''/tmp/upload.wav'') hindi) =
     Some ''/tmp/medical_notes_audio_1700000000.mp3''"
  by (simp add: english_def hindi_def example_audio_run audio_of_def example_audio_tts_path)

end
